theory Spec2Isabelle
  imports Main "HOL-Library.Word"
begin

unbundle bit_operations_syntax

section \<open>The mr25hxx SPI MRAM driver (drivers/mtd/spi/mr25hxx.c)\<close>

text \<open>
  The driver is modelled on an LP64 target: \<open>loff_t\<close> is a signed 64-bit integer,
  \<open>size_t\<close> and pointers are 64 bits wide, \<open>unsigned int\<close> is 32 bits wide and
  \<open>uchar\<close> is 8 bits wide.  File-scope variables of the driver, the objects it
  reaches through pointers and the calls it makes to other subsystems are fields
  of one explicit state that every function takes and returns.
\<close>

type_synonym uchar = "8 word"
type_synonym loff_t = "64 word"
type_synonym size_t = "64 word"
type_synonym uint = "32 word"

subsection \<open>Data\<close>

text \<open>\<open>struct mr25hxx_data\<close>; the field \<open>size\<close> is named \<open>size_m\<close> here.\<close>

record mr25hxx_data =
  size_m :: "64 word"
  addr_bytes :: uint

text \<open>
  The framing flags of a transfer.  The driver combines them with \<open>|\<close> and passes
  \<open>0\<close> for none, so a flag word is the set of the flags that are on.
\<close>

datatype spi_flag = SPI_XFER_BEGIN | SPI_XFER_END

text \<open>
  One call of \<open>dm_spi_xfer(dev, bitlen, dout, din, flags)\<close>: the device pointer
  (\<open>None\<close> for \<open>NULL\<close>), the bit length, the bytes of the array that \<open>dout\<close>
  points to (\<open>None\<close> for \<open>NULL\<close>), whether a receive buffer was passed, and the flags.
\<close>

record spi_xfer =
  xf_dev :: "nat option"
  xf_bitlen :: uint
  xf_dout :: "uchar list option"
  xf_din :: bool
  xf_flags :: "spi_flag set"

text \<open>The bytes a transfer clocks out: the first \<open>bitlen / 8\<close> bytes of \<open>dout\<close>.\<close>

definition xf_sent :: "spi_xfer \<Rightarrow> uchar list" where
  "xf_sent x = (case xf_dout x of None \<Rightarrow> [] | Some bs \<Rightarrow> take (unat (xf_bitlen x) div 8) bs)"

datatype mtd_type_t = MTD_ABSENT | MTD_RAM

datatype mtd_flags_t = MTD_FLAGS_UNSET | MTD_CAP_RAM

datatype mtd_entry_point = spi_mram_erase_fn | spi_mram_read_fn | spi_mram_write_fn | spi_mram_sync_fn

text \<open>The fields of \<open>struct mtd_info\<close> that the driver touches.\<close>

record mtd_info =
  mtd_name :: string
  mtd_type :: mtd_type_t
  mtd_flags :: mtd_flags_t
  mtd_erase :: "mtd_entry_point option"
  mtd_read :: "mtd_entry_point option"
  mtd_write :: "mtd_entry_point option"
  mtd_sync :: "mtd_entry_point option"
  mtd_size :: "64 word"
  mtd_writesize :: uint
  mtd_writebufsize :: uint
  mtd_numeraseregions :: int
  mtd_erasesize :: uint
  mtd_priv :: "nat option"

text \<open>
  \<open>struct udevice\<close>: its own address, the address of its uclass-private
  \<open>mtd_info\<close> and the compatible string it was bound with.
\<close>

record udevice =
  dev_addr :: nat
  uclass_priv :: nat
  compatible :: string

datatype console_msg =
  Msg_claim_failed int
  | Msg_addr_bytes_unsupported uint
  | Msg_unregister_failed string

datatype mtd_call = Call_add_mtd_device nat int | Call_del_mtd_device nat int

text \<open>
  The state: the file-scope variables \<open>mram_mtd_registered\<close> and \<open>dev_data\<close>
  (\<open>None\<close> for \<open>NULL\<close>), the \<open>mtd_info\<close> objects by address, the table of the MTD
  core (addresses of the registered \<open>mtd_info\<close> objects), and the calls made so far
  to the SPI bus, to the MTD core and to \<open>printf\<close>.
\<close>

record mram_state =
  mram_mtd_registered :: bool
  dev_data :: "mr25hxx_data option"
  mtds :: "nat \<Rightarrow> mtd_info"
  mtd_table :: "nat list"
  mtd_log :: "mtd_call list"
  spi_log :: "spi_xfer list"
  console :: "console_msg list"

text \<open>A dereference of \<open>NULL\<close> and a write past the end of an allocation are faults.\<close>

datatype fault = Null_deref | Out_of_bounds

definition mram_mtd_name :: string where
  "mram_mtd_name = ''mram0''"

subsection \<open>The SPI bus\<close>

text \<open>
  Modelled from the spec: \<open>dm_spi_xfer\<close> is the CommandTransport of section 4.2,
  whose code is not part of the driver file.  A transport is any function from
  the transfers made so far and the transfer requested to a return code (0 for
  success) and the bytes received; the call is appended to \<open>spi_log\<close>.
\<close>

type_synonym transport = "spi_xfer list \<Rightarrow> spi_xfer \<Rightarrow> int \<times> uchar list"

definition dm_spi_xfer ::
  "transport \<Rightarrow> nat option \<Rightarrow> uint \<Rightarrow> uchar list option \<Rightarrow> bool \<Rightarrow> spi_flag set \<Rightarrow> mram_state
    \<Rightarrow> int \<times> uchar list \<times> mram_state" where
  "dm_spi_xfer tr dev bitlen dout din flags s =
     (let x = \<lparr>xf_dev = dev, xf_bitlen = bitlen, xf_dout = dout, xf_din = din, xf_flags = flags\<rparr>;
          (r, rx) = tr (spi_log s) x
      in (r, rx, s\<lparr>spi_log := spi_log s @ [x]\<rparr>))"

text \<open>The receive buffer after a transfer: the bytes received overwrite its front.\<close>

definition rx_into :: "uchar list \<Rightarrow> uchar list \<Rightarrow> uchar list" where
  "rx_into rx buf = take (length buf) (rx @ drop (length rx) buf)"

subsection \<open>Read and write\<close>

text \<open>
  The \<open>if\<close> chain on \<open>dev_data->addr_bytes\<close> at the head of \<open>spi_mram_read\<close> and of
  \<open>spi_mram_write\<close> (the same text in both): the array \<open>addr[3]\<close> and \<open>addr_bits\<close>,
  or \<open>None\<close> in the last branch.  \<open>>>\<close> on the signed \<open>loff_t\<close> is an arithmetic shift;
  the assignment to a \<open>uchar\<close> truncates.
\<close>

definition mram_addr :: "uint \<Rightarrow> loff_t \<Rightarrow> (uchar list \<times> uint) option" where
  "mram_addr ab offset =
     (if ab = 3 then
        Some ([ucast (signed_drop_bit 16 offset AND 0xff),
               ucast (signed_drop_bit 8 offset AND 0xff),
               ucast (offset AND 0xff)], 3 * 8)
      else if ab = 2 then
        Some ([ucast (signed_drop_bit 8 offset AND 0xff),
               ucast (offset AND 0xff),
               0x0], 2 * 8)
      else None)"

text \<open>
  \<open>spi_mram_read(mtd, offset, len, retlen, buf)\<close>.  \<open>retlen0\<close> and \<open>buf0\<close> are what
  \<open>*retlen\<close> and \<open>buf\<close> hold at the call; the result is the return value, \<open>*retlen\<close>,
  \<open>buf\<close> and the state afterwards.  The three return values of \<open>dm_spi_xfer\<close> are
  assigned to \<open>result\<close> in turn, and only the last one is tested.
\<close>

definition spi_mram_read ::
  "transport \<Rightarrow> nat \<Rightarrow> loff_t \<Rightarrow> size_t \<Rightarrow> size_t \<Rightarrow> uchar list \<Rightarrow> mram_state
    \<Rightarrow> fault + (int \<times> size_t \<times> uchar list \<times> mram_state)" where
  "spi_mram_read tr mtd offset len retlen0 buf0 s =
     (case dev_data s of
        None \<Rightarrow> Inl Null_deref
      | Some d \<Rightarrow>
          (case mram_addr (addr_bytes d) offset of
             None \<Rightarrow>
               Inr (- 1, retlen0, buf0,
                    s\<lparr>console := console s @ [Msg_addr_bytes_unsupported (addr_bytes d)]\<rparr>)
           | Some (addr, addr_bits) \<Rightarrow>
               (let priv = mtd_priv (mtds s mtd);
                    (result, rx, s) = dm_spi_xfer tr priv 8 (Some [0x03]) False {SPI_XFER_BEGIN} s;
                    (result, rx, s) = dm_spi_xfer tr priv addr_bits (Some addr) False {} s;
                    (result, rx, s) = dm_spi_xfer tr priv (ucast (8 * len)) None True {SPI_XFER_END} s;
                    buf = rx_into rx buf0
                in Inr (result, if result = 0 then len else retlen0, buf, s))))"

text \<open>\<open>spi_mram_write(mtd, offset, len, retlen, buf)\<close>, in the same way.\<close>

definition spi_mram_write ::
  "transport \<Rightarrow> nat \<Rightarrow> loff_t \<Rightarrow> size_t \<Rightarrow> size_t \<Rightarrow> uchar list \<Rightarrow> mram_state
    \<Rightarrow> fault + (int \<times> size_t \<times> mram_state)" where
  "spi_mram_write tr mtd offset len retlen0 buf s =
     (case dev_data s of
        None \<Rightarrow> Inl Null_deref
      | Some d \<Rightarrow>
          (case mram_addr (addr_bytes d) offset of
             None \<Rightarrow>
               Inr (- 1, retlen0,
                    s\<lparr>console := console s @ [Msg_addr_bytes_unsupported (addr_bytes d)]\<rparr>)
           | Some (addr, addr_bits) \<Rightarrow>
               (let priv = mtd_priv (mtds s mtd);
                    (result, rx, s) =
                       dm_spi_xfer tr priv 8 (Some [0x06]) False {SPI_XFER_BEGIN, SPI_XFER_END} s;
                    (result, rx, s) = dm_spi_xfer tr priv 8 (Some [0x02]) False {SPI_XFER_BEGIN} s;
                    (result, rx, s) = dm_spi_xfer tr priv addr_bits (Some addr) False {} s;
                    (result, rx, s) = dm_spi_xfer tr priv (ucast (8 * len)) (Some buf) False {SPI_XFER_END} s
                in Inr (result, if result = 0 then len else retlen0, s))))"

subsection \<open>Erase and sync\<close>

text \<open>\<open>struct erase_info\<close>: the two fields the driver reads, both \<open>uint64_t\<close>.\<close>

record erase_info =
  ei_addr :: "64 word"
  ei_len :: "64 word"

text \<open>
  \<open>kmalloc(n, GFP_KERNEL)\<close> returns \<open>NULL\<close> or a block of \<open>n\<close> bytes that it does not
  initialise.  The parameter \<open>heap\<close> is \<open>None\<close> when the allocation fails and
  otherwise gives the byte that the fresh block holds at each index.
\<close>

definition kmalloc :: "(nat \<Rightarrow> uchar) option \<Rightarrow> nat \<Rightarrow> uchar list option" where
  "kmalloc heap n = map_option (\<lambda>g. map g [0..<n]) heap"

text \<open>\<open>memset(p, c, n)\<close> on a block: it sets the first \<open>n\<close> bytes.\<close>

definition memset :: "uchar list option \<Rightarrow> uchar \<Rightarrow> nat \<Rightarrow> fault + uchar list" where
  "memset p c n =
     (case p of
        None \<Rightarrow> Inl Null_deref
      | Some b \<Rightarrow> if n \<le> length b then Inr (replicate n c @ drop n b) else Inl Out_of_bounds)"

text \<open>\<open>sizeof(buffer)\<close> for \<open>uchar* buffer\<close>: the size of a pointer.\<close>

definition sizeof_buffer :: nat where
  "sizeof_buffer = 8"

text \<open>
  \<open>sizeof(int)\<close>, the size of the local \<open>int retlen\<close> of \<open>spi_mram_erase\<close>, and
  \<open>sizeof(size_t)\<close>, the size of what \<open>spi_mram_write\<close> stores through its
  \<open>size_t *retlen\<close>.
\<close>

definition sizeof_int :: nat where
  "sizeof_int = 4"

definition sizeof_size_t :: nat where
  "sizeof_size_t = 8"

text \<open>
  \<open>spi_mram_erase(mtd, instr)\<close>.  The result is a fault or the return value,
  together with the state reached, since a fault can come after transfers were
  made.  The local \<open>retlen\<close> is an \<open>int\<close> that is not initialised (the model passes 0
  for what it holds), and \<open>&retlen\<close> is passed as the \<open>size_t *retlen\<close> of
  \<open>spi_mram_write\<close>.  The write stores \<open>len\<close> through that pointer exactly when it
  returns 0, after its four transfers: a store of \<open>sizeof(size_t)\<close> bytes into an
  object of \<open>sizeof(int)\<close> bytes, which goes past the object.
\<close>

definition spi_mram_erase ::
  "transport \<Rightarrow> (nat \<Rightarrow> uchar) option \<Rightarrow> nat \<Rightarrow> erase_info \<Rightarrow> mram_state
    \<Rightarrow> (fault + int) \<times> mram_state" where
  "spi_mram_erase tr heap mtd instr s =
     (let buffer = kmalloc heap (unat (ei_len instr * 1))
      in case memset buffer 0 sizeof_buffer of
           Inl f \<Rightarrow> (Inl f, s)
         | Inr buffer \<Rightarrow>
             (case spi_mram_write tr mtd (ei_addr instr) (ei_len instr) 0 buffer s of
                Inl f \<Rightarrow> (Inl f, s)
              | Inr (result, retlen, s') \<Rightarrow>
                  if result = 0 \<and> sizeof_int < sizeof_size_t then (Inl Out_of_bounds, s')
                  else (Inr result, s')))"

definition spi_mram_sync :: "nat \<Rightarrow> mram_state \<Rightarrow> mram_state" where
  "spi_mram_sync mtd s = s"

subsection \<open>The MTD core\<close>

text \<open>
  Modelled from the spec: \<open>add_mtd_device\<close> and \<open>del_mtd_device\<close> are the registry
  collaborator of section 6 (\<open>register(entry)\<close> and \<open>unregister(entry)\<close>, each
  succeeding or failing), whose code is not part of the driver file.  The return
  code is a parameter; on 0 the entry is added to, or one occurrence of it removed
  from, the table, and otherwise the table is left alone.
\<close>

definition add_mtd_device :: "int \<Rightarrow> nat \<Rightarrow> mram_state \<Rightarrow> int \<times> mram_state" where
  "add_mtd_device ret mtd s =
     (ret, s\<lparr>mtd_table := (if ret = 0 then mtd_table s @ [mtd] else mtd_table s),
              mtd_log := mtd_log s @ [Call_add_mtd_device mtd ret]\<rparr>)"

definition del_mtd_device :: "int \<Rightarrow> nat \<Rightarrow> mram_state \<Rightarrow> int \<times> mram_state" where
  "del_mtd_device ret mtd s =
     (ret, s\<lparr>mtd_table := (if ret = 0 then remove1 mtd (mtd_table s) else mtd_table s),
              mtd_log := mtd_log s @ [Call_del_mtd_device mtd ret]\<rparr>)"

subsection \<open>Registration\<close>

text \<open>
  \<open>spi_mram_mtd_register(mtd)\<close>.  \<open>del_ret\<close> and \<open>add_ret\<close> are what the MTD core
  returns to the two calls.  The early return on a failed \<open>del_mtd_device\<close> is the
  \<open>Inl\<close> of the first \<open>case\<close>.
\<close>

definition spi_mram_mtd_register ::
  "int \<Rightarrow> int \<Rightarrow> nat \<Rightarrow> mram_state \<Rightarrow> fault + (int \<times> mram_state)" where
  "spi_mram_mtd_register del_ret add_ret mtd s =
     (case (if mram_mtd_registered s then
              (let (ret, s) = del_mtd_device del_ret mtd s
               in if ret \<noteq> 0 then Inl (ret, s) else Inr (s\<lparr>mram_mtd_registered := False\<rparr>))
            else Inr s) of
        Inl early \<Rightarrow> Inr early
      | Inr s \<Rightarrow>
          (let s = s\<lparr>mram_mtd_registered := False\<rparr>;
               s = s\<lparr>mtds := (mtds s)(mtd := (mtds s mtd)
                      \<lparr>mtd_name := mram_mtd_name, mtd_type := MTD_RAM, mtd_flags := MTD_CAP_RAM,
                       mtd_erase := Some spi_mram_erase_fn, mtd_read := Some spi_mram_read_fn,
                       mtd_write := Some spi_mram_write_fn, mtd_sync := Some spi_mram_sync_fn\<rparr>)\<rparr>
           in case dev_data s of
                None \<Rightarrow> Inl Null_deref
              | Some d \<Rightarrow>
                  (let s = s\<lparr>mtds := (mtds s)(mtd := (mtds s mtd)
                             \<lparr>mtd_size := size_m d, mtd_writesize := 1, mtd_writebufsize := 265,
                              mtd_numeraseregions := 0, mtd_erasesize := 1\<rparr>)\<rparr>;
                       (ret, s) = add_mtd_device add_ret mtd s;
                       s = (if ret = 0 then s\<lparr>mram_mtd_registered := True\<rparr> else s)
                   in Inr (ret, s))))"

text \<open>\<open>spi_mram_mtd_unregister(dev)\<close>.\<close>

definition spi_mram_mtd_unregister :: "int \<Rightarrow> udevice \<Rightarrow> mram_state \<Rightarrow> mram_state" where
  "spi_mram_mtd_unregister del_ret dev s =
     (let mtd = uclass_priv dev
      in if \<not> mram_mtd_registered s then s
         else (let (ret, s) = del_mtd_device del_ret mtd s
               in if ret = 0 then s\<lparr>mram_mtd_registered := False\<rparr>
                  else s\<lparr>mtds := (mtds s)(mtd := (mtds s mtd)\<lparr>mtd_priv := None\<rparr>),
                         console := console s @ [Msg_unregister_failed (mtd_name (mtds s mtd))]\<rparr>))"

subsection \<open>The variants, probe and remove\<close>

definition mr25h40_data :: mr25hxx_data where
  "mr25h40_data = \<lparr>size_m = 0x80000, addr_bytes = 3\<rparr>"

definition mr25h10_data :: mr25hxx_data where
  "mr25h10_data = \<lparr>size_m = 0x20000, addr_bytes = 3\<rparr>"

definition mr25h256_data :: mr25hxx_data where
  "mr25h256_data = \<lparr>size_m = 0x8000, addr_bytes = 2\<rparr>"

definition mr25h128_data :: mr25hxx_data where
  "mr25h128_data = \<lparr>size_m = 0x4000, addr_bytes = 2\<rparr>"

definition spi_mram_ids :: "(string \<times> mr25hxx_data) list" where
  "spi_mram_ids =
     [(''mr25h40'', mr25h40_data),
      (''mr25h10'', mr25h10_data),
      (''mr25h256'', mr25h256_data),
      (''mr25h128'', mr25h128_data)]"

text \<open>
  Modelled from the spec: \<open>dev_get_driver_data\<close> is the binding collaborator of
  section 6, whose code is not part of the driver file: it supplies the record of
  the variant table that the device's model string selects (\<open>None\<close>, a null
  pointer, when the table has no such string).
\<close>

definition dev_get_driver_data :: "udevice \<Rightarrow> mr25hxx_data option" where
  "dev_get_driver_data dev = map_of spi_mram_ids (compatible dev)"

text \<open>
  \<open>spi_mram_probe(dev)\<close>, with \<open>DEBUG\<close> undefined, so that the \<open>debug\<close> lines do nothing.
  \<open>cfg\<close> is \<open>CONFIG_IS_ENABLED(SPI_FLASH_MTD)\<close> and \<open>claim_ret\<close> is what
  \<open>dm_spi_claim_bus\<close> returns.
\<close>

definition spi_mram_probe ::
  "bool \<Rightarrow> int \<Rightarrow> int \<Rightarrow> int \<Rightarrow> udevice \<Rightarrow> mram_state \<Rightarrow> fault + (int \<times> mram_state)" where
  "spi_mram_probe cfg claim_ret del_ret add_ret dev s =
     (let mtd = uclass_priv dev;
          s = s\<lparr>mtds := (mtds s)(mtd := (mtds s mtd)\<lparr>mtd_priv := Some (dev_addr dev)\<rparr>)\<rparr>;
          result = claim_ret
      in if result \<noteq> 0 then Inr (result, s\<lparr>console := console s @ [Msg_claim_failed result]\<rparr>)
         else (let s = s\<lparr>dev_data := dev_get_driver_data dev\<rparr>
               in if cfg then spi_mram_mtd_register del_ret add_ret mtd s
                  else Inr (result, s)))"

text \<open>\<open>spi_mram_remove(dev)\<close>.\<close>

definition spi_mram_remove :: "bool \<Rightarrow> int \<Rightarrow> udevice \<Rightarrow> mram_state \<Rightarrow> int \<times> mram_state" where
  "spi_mram_remove cfg del_ret dev s =
     (let s = (if cfg then spi_mram_mtd_unregister del_ret dev s else s);
          s = s\<lparr>dev_data := None\<rparr>
      in (0, s))"

subsection \<open>What a call adds to the bus log\<close>

text \<open>
  The transfers that one call of a driver function issues.  A read or a write that
  faults has issued none; an erase can fault after its transfers.
\<close>

definition read_xfers ::
  "transport \<Rightarrow> nat \<Rightarrow> loff_t \<Rightarrow> size_t \<Rightarrow> size_t \<Rightarrow> uchar list \<Rightarrow> mram_state \<Rightarrow> spi_xfer list" where
  "read_xfers tr mtd offset len retlen0 buf0 s =
     (case spi_mram_read tr mtd offset len retlen0 buf0 s of
        Inl f \<Rightarrow> []
      | Inr (r, n, b, s') \<Rightarrow> drop (length (spi_log s)) (spi_log s'))"

definition write_xfers ::
  "transport \<Rightarrow> nat \<Rightarrow> loff_t \<Rightarrow> size_t \<Rightarrow> size_t \<Rightarrow> uchar list \<Rightarrow> mram_state \<Rightarrow> spi_xfer list" where
  "write_xfers tr mtd offset len retlen0 buf s =
     (case spi_mram_write tr mtd offset len retlen0 buf s of
        Inl f \<Rightarrow> []
      | Inr (r, n, s') \<Rightarrow> drop (length (spi_log s)) (spi_log s'))"

definition erase_xfers ::
  "transport \<Rightarrow> (nat \<Rightarrow> uchar) option \<Rightarrow> nat \<Rightarrow> erase_info \<Rightarrow> mram_state \<Rightarrow> spi_xfer list" where
  "erase_xfers tr heap mtd instr s =
     drop (length (spi_log s)) (spi_log (snd (spi_mram_erase tr heap mtd instr s)))"

subsection \<open>The MTD table along a sequence of calls\<close>

text \<open>
  What one logged call of the MTD core does to the table, and the tables that a
  sequence of calls goes through, the first one included.
\<close>

fun mtd_call_effect :: "mtd_call \<Rightarrow> nat list \<Rightarrow> nat list" where
  "mtd_call_effect (Call_add_mtd_device m r) t = (if r = 0 then t @ [m] else t)"
| "mtd_call_effect (Call_del_mtd_device m r) t = (if r = 0 then remove1 m t else t)"

fun tables_along :: "nat list \<Rightarrow> mtd_call list \<Rightarrow> nat list list" where
  "tables_along t [] = [t]"
| "tables_along t (c # cs) = t # tables_along (mtd_call_effect c t) cs"

text \<open>A transfer without the device pointer it was issued on.\<close>

definition xf_request :: "spi_xfer \<Rightarrow> uint \<times> uchar list option \<times> bool \<times> spi_flag set" where
  "xf_request x = (xf_bitlen x, xf_dout x, xf_din x, xf_flags x)"

subsection \<open>Concrete states, devices and buses\<close>

text \<open>A zeroed \<open>mtd_info\<close>, as the uclass allocates it.\<close>

definition mtd_zero :: mtd_info where
  "mtd_zero =
     \<lparr>mtd_name = [], mtd_type = MTD_ABSENT, mtd_flags = MTD_FLAGS_UNSET,
      mtd_erase = None, mtd_read = None, mtd_write = None, mtd_sync = None,
      mtd_size = 0, mtd_writesize = 0, mtd_writebufsize = 0, mtd_numeraseregions = 0,
      mtd_erasesize = 0, mtd_priv = None\<rparr>"

text \<open>
  The state before any probe: the initialisers of the file-scope variables, an
  empty MTD table and empty logs.
\<close>

definition boot_state :: mram_state where
  "boot_state =
     \<lparr>mram_mtd_registered = False, dev_data = None, mtds = (\<lambda>a. mtd_zero),
      mtd_table = [], mtd_log = [], spi_log = [], console = []\<rparr>"

text \<open>A bus on which every transfer succeeds and every byte received is zero.\<close>

definition tr_ok :: transport where
  "tr_ok h x = (0, replicate (unat (xf_bitlen x) div 8) 0)"

text \<open>
  A bus on which a transfer that asserts chip-select fails with \<open>-EIO\<close> and every
  other transfer succeeds.
\<close>

definition tr_begin_fails :: transport where
  "tr_begin_fails h x =
     (if SPI_XFER_BEGIN \<in> xf_flags x then (- 5, [])
      else (0, replicate (unat (xf_bitlen x) div 8) 0))"

text \<open>
  A bus on which the transfer that carries \<open>SPI_XFER_END\<close> alone, the data transfer
  of a read or a write, fails with \<open>-EIO\<close> and every other transfer succeeds.
\<close>

definition tr_data_fails :: transport where
  "tr_data_fails h x =
     (if xf_flags x = {SPI_XFER_END} then (- 5, [])
      else (0, replicate (unat (xf_bitlen x) div 8) 0))"

definition dev_a :: udevice where
  "dev_a = \<lparr>dev_addr = 1, uclass_priv = 11, compatible = ''mr25h40''\<rparr>"

definition dev_b :: udevice where
  "dev_b = \<lparr>dev_addr = 2, uclass_priv = 12, compatible = ''mr25h256''\<rparr>"

text \<open>The \<open>mtd_info\<close> that registration fills in for a device of the given size.\<close>

definition mtd_filled :: "64 word \<Rightarrow> nat option \<Rightarrow> mtd_info" where
  "mtd_filled sz p =
     \<lparr>mtd_name = ''mram0'', mtd_type = MTD_RAM, mtd_flags = MTD_CAP_RAM,
      mtd_erase = Some spi_mram_erase_fn, mtd_read = Some spi_mram_read_fn,
      mtd_write = Some spi_mram_write_fn, mtd_sync = Some spi_mram_sync_fn,
      mtd_size = sz, mtd_writesize = 1, mtd_writebufsize = 265, mtd_numeraseregions = 0,
      mtd_erasesize = 1, mtd_priv = p\<rparr>"

text \<open>The state after \<open>dev_a\<close> was probed from \<open>boot_state\<close> with every call succeeding.\<close>

definition state_a :: mram_state where
  "state_a =
     \<lparr>mram_mtd_registered = True, dev_data = Some mr25h40_data,
      mtds = (\<lambda>a. mtd_zero)(11 := mtd_filled 0x80000 (Some 1)),
      mtd_table = [11], mtd_log = [Call_add_mtd_device 11 0], spi_log = [], console = []\<rparr>"

text \<open>
  The state after \<open>dev_b\<close> was then probed, with \<open>del_mtd_device\<close> returning
  \<open>-ENODEV\<close> for its \<open>mtd_info\<close>, which is not in the table.
\<close>

definition state_ab :: mram_state where
  "state_ab =
     \<lparr>mram_mtd_registered = True, dev_data = Some mr25h256_data,
      mtds = (\<lambda>a. mtd_zero)(11 := mtd_filled 0x80000 (Some 1), 12 := mtd_zero\<lparr>mtd_priv := Some 2\<rparr>),
      mtd_table = [11],
      mtd_log = [Call_add_mtd_device 11 0, Call_del_mtd_device 12 (- 19)],
      spi_log = [], console = []\<rparr>"

section \<open>Properties\<close>

subsection \<open>Bytes of an offset\<close>

lemma ucast_sshift16:
  "(ucast (signed_drop_bit 16 (w::64 word)) :: 8 word) = ucast (drop_bit 16 w)"
  by (rule bit_word_eqI) (auto simp: bit_simps)

lemma ucast_sshift8:
  "(ucast (signed_drop_bit 8 (w::64 word)) :: 8 word) = ucast (drop_bit 8 w)"
  by (rule bit_word_eqI) (auto simp: bit_simps)

lemma ucast_low_byte: "(ucast ((w::64 word) AND 0xff) :: 8 word) = ucast w"
proof -
  have m: "(0xff :: 64 word) = mask 8" by (simp add: mask_eq_exp_minus_1)
  show ?thesis unfolding m by (rule bit_word_eqI) (auto simp: bit_simps)
qed

lemma unat_byte: "unat (ucast (drop_bit n (w::64 word)) :: 8 word) = unat w div 2 ^ n mod 256"
proof -
  have "unat (ucast (drop_bit n w) :: 8 word) = unat (drop_bit n w) mod 256"
    by (simp add: unsigned_ucast_eq take_bit_eq_mod)
  also have "unat (drop_bit n w) = unat w div 2 ^ n"
    by (subst unat_drop_bit_eq) (simp add: drop_bit_eq_div)
  finally show ?thesis .
qed

lemma unat_byte0: "unat (ucast (w::64 word) :: 8 word) = unat w mod 256"
  by (simp add: unsigned_ucast_eq take_bit_eq_mod)

lemma mram_addr_3:
  "mram_addr 3 offset = Some ([ucast (drop_bit 16 offset), ucast (drop_bit 8 offset), ucast offset], 24)"
  by (simp add: mram_addr_def ucast_low_byte ucast_sshift16 ucast_sshift8)

lemma mram_addr_2:
  "mram_addr 2 offset = Some ([ucast (drop_bit 8 offset), ucast offset, 0], 16)"
  by (simp add: mram_addr_def ucast_low_byte ucast_sshift8)

lemma mram_addr_other: "ab \<noteq> 2 \<Longrightarrow> ab \<noteq> 3 \<Longrightarrow> mram_addr ab offset = None"
  by (simp add: mram_addr_def)

subsection \<open>Read and write, branch by branch\<close>

lemma spi_mram_read_eq:
  assumes "dev_data s = Some d" and "mram_addr (addr_bytes d) offset = Some (addr, addr_bits)"
  shows "spi_mram_read tr mtd offset len retlen0 buf0 s =
     (let priv = mtd_priv (mtds s mtd);
          x1 = \<lparr>xf_dev = priv, xf_bitlen = 8, xf_dout = Some [0x03], xf_din = False,
                xf_flags = {SPI_XFER_BEGIN}\<rparr>;
          x2 = \<lparr>xf_dev = priv, xf_bitlen = addr_bits, xf_dout = Some addr, xf_din = False,
                xf_flags = {}\<rparr>;
          x3 = \<lparr>xf_dev = priv, xf_bitlen = ucast (8 * len), xf_dout = None, xf_din = True,
                xf_flags = {SPI_XFER_END}\<rparr>;
          r = fst (tr (spi_log s @ [x1, x2]) x3);
          rx = snd (tr (spi_log s @ [x1, x2]) x3)
      in Inr (r, if r = 0 then len else retlen0, rx_into rx buf0,
              s\<lparr>spi_log := spi_log s @ [x1, x2, x3]\<rparr>))"
  using assms
  by (simp add: spi_mram_read_def dm_spi_xfer_def Let_def split: prod.splits)

lemma spi_mram_write_eq:
  assumes "dev_data s = Some d" and "mram_addr (addr_bytes d) offset = Some (addr, addr_bits)"
  shows "spi_mram_write tr mtd offset len retlen0 buf s =
     (let priv = mtd_priv (mtds s mtd);
          x0 = \<lparr>xf_dev = priv, xf_bitlen = 8, xf_dout = Some [0x06], xf_din = False,
                xf_flags = {SPI_XFER_BEGIN, SPI_XFER_END}\<rparr>;
          x1 = \<lparr>xf_dev = priv, xf_bitlen = 8, xf_dout = Some [0x02], xf_din = False,
                xf_flags = {SPI_XFER_BEGIN}\<rparr>;
          x2 = \<lparr>xf_dev = priv, xf_bitlen = addr_bits, xf_dout = Some addr, xf_din = False,
                xf_flags = {}\<rparr>;
          x3 = \<lparr>xf_dev = priv, xf_bitlen = ucast (8 * len), xf_dout = Some buf, xf_din = False,
                xf_flags = {SPI_XFER_END}\<rparr>;
          r = fst (tr (spi_log s @ [x0, x1, x2]) x3)
      in Inr (r, if r = 0 then len else retlen0, s\<lparr>spi_log := spi_log s @ [x0, x1, x2, x3]\<rparr>))"
  using assms
  by (simp add: spi_mram_write_def dm_spi_xfer_def Let_def split: prod.splits)

lemma spi_mram_read_unsupported:
  assumes "dev_data s = Some d" and "addr_bytes d \<noteq> 2" and "addr_bytes d \<noteq> 3"
  shows "spi_mram_read tr mtd offset len retlen0 buf0 s =
           Inr (- 1, retlen0, buf0,
                s\<lparr>console := console s @ [Msg_addr_bytes_unsupported (addr_bytes d)]\<rparr>)"
  using assms by (simp add: spi_mram_read_def mram_addr_def)

lemma spi_mram_write_unsupported:
  assumes "dev_data s = Some d" and "addr_bytes d \<noteq> 2" and "addr_bytes d \<noteq> 3"
  shows "spi_mram_write tr mtd offset len retlen0 buf s =
           Inr (- 1, retlen0,
                s\<lparr>console := console s @ [Msg_addr_bytes_unsupported (addr_bytes d)]\<rparr>)"
  using assms by (simp add: spi_mram_write_def mram_addr_def)

lemma read_xfers_eq:
  assumes "dev_data s = Some d" and "mram_addr (addr_bytes d) offset = Some (addr, addr_bits)"
  shows "read_xfers tr mtd offset len retlen0 buf0 s =
     (let priv = mtd_priv (mtds s mtd)
      in [\<lparr>xf_dev = priv, xf_bitlen = 8, xf_dout = Some [0x03], xf_din = False,
           xf_flags = {SPI_XFER_BEGIN}\<rparr>,
          \<lparr>xf_dev = priv, xf_bitlen = addr_bits, xf_dout = Some addr, xf_din = False,
           xf_flags = {}\<rparr>,
          \<lparr>xf_dev = priv, xf_bitlen = ucast (8 * len), xf_dout = None, xf_din = True,
           xf_flags = {SPI_XFER_END}\<rparr>])"
  by (simp add: read_xfers_def spi_mram_read_eq [OF assms] Let_def)

lemma write_xfers_eq:
  assumes "dev_data s = Some d" and "mram_addr (addr_bytes d) offset = Some (addr, addr_bits)"
  shows "write_xfers tr mtd offset len retlen0 buf s =
     (let priv = mtd_priv (mtds s mtd)
      in [\<lparr>xf_dev = priv, xf_bitlen = 8, xf_dout = Some [0x06], xf_din = False,
           xf_flags = {SPI_XFER_BEGIN, SPI_XFER_END}\<rparr>,
          \<lparr>xf_dev = priv, xf_bitlen = 8, xf_dout = Some [0x02], xf_din = False,
           xf_flags = {SPI_XFER_BEGIN}\<rparr>,
          \<lparr>xf_dev = priv, xf_bitlen = addr_bits, xf_dout = Some addr, xf_din = False,
           xf_flags = {}\<rparr>,
          \<lparr>xf_dev = priv, xf_bitlen = ucast (8 * len), xf_dout = Some buf, xf_din = False,
           xf_flags = {SPI_XFER_END}\<rparr>])"
  by (simp add: write_xfers_def spi_mram_write_eq [OF assms] Let_def)

subsection \<open>The address sent\<close>

text \<open>
  Claim C4.  With an address width of 3 the address transfer of a read and of a
  write sends the three bytes of the offset from the most significant to the
  least significant, in 24 bits; with a width of 2 it sends the two low bytes in
  the same order, in 16 bits.  The bytes are given by their values,
  \<open>offset div 2 ^ k mod 256\<close>, which is \<open>(offset >> k) & 0xFF\<close>.
\<close>

theorem address_bytes_big_endian:
  assumes "dev_data s = Some d"
  shows "(addr_bytes d = 3 \<longrightarrow>
            map unat (xf_sent (read_xfers tr mtd offset len retlen0 buf0 s ! 1))
              = [unat offset div 65536 mod 256, unat offset div 256 mod 256, unat offset mod 256]
          \<and> xf_bitlen (read_xfers tr mtd offset len retlen0 buf0 s ! 1) = 24
          \<and> map unat (xf_sent (write_xfers tr mtd offset len retlen0 buf s ! 2))
              = [unat offset div 65536 mod 256, unat offset div 256 mod 256, unat offset mod 256]
          \<and> xf_bitlen (write_xfers tr mtd offset len retlen0 buf s ! 2) = 24)
       \<and> (addr_bytes d = 2 \<longrightarrow>
            map unat (xf_sent (read_xfers tr mtd offset len retlen0 buf0 s ! 1))
              = [unat offset div 256 mod 256, unat offset mod 256]
          \<and> xf_bitlen (read_xfers tr mtd offset len retlen0 buf0 s ! 1) = 16
          \<and> map unat (xf_sent (write_xfers tr mtd offset len retlen0 buf s ! 2))
              = [unat offset div 256 mod 256, unat offset mod 256]
          \<and> xf_bitlen (write_xfers tr mtd offset len retlen0 buf s ! 2) = 16)"
proof (intro conjI impI)
  assume w: "addr_bytes d = 3"
  have a: "mram_addr (addr_bytes d) offset
             = Some ([ucast (drop_bit 16 offset), ucast (drop_bit 8 offset), ucast offset], 24)"
    by (simp add: w mram_addr_3)
  show "map unat (xf_sent (read_xfers tr mtd offset len retlen0 buf0 s ! 1))
          = [unat offset div 65536 mod 256, unat offset div 256 mod 256, unat offset mod 256]"
    using unat_byte [of 16 offset] unat_byte [of 8 offset]
    by (simp add: read_xfers_eq [OF assms a] xf_sent_def unat_byte0 Let_def)
  show "xf_bitlen (read_xfers tr mtd offset len retlen0 buf0 s ! 1) = 24"
    by (simp add: read_xfers_eq [OF assms a] Let_def)
  show "map unat (xf_sent (write_xfers tr mtd offset len retlen0 buf s ! 2))
          = [unat offset div 65536 mod 256, unat offset div 256 mod 256, unat offset mod 256]"
    using unat_byte [of 16 offset] unat_byte [of 8 offset]
    by (simp add: write_xfers_eq [OF assms a] xf_sent_def unat_byte0 Let_def)
  show "xf_bitlen (write_xfers tr mtd offset len retlen0 buf s ! 2) = 24"
    by (simp add: write_xfers_eq [OF assms a] Let_def)
next
  assume w: "addr_bytes d = 2"
  have a: "mram_addr (addr_bytes d) offset = Some ([ucast (drop_bit 8 offset), ucast offset, 0], 16)"
    by (simp add: w mram_addr_2)
  show "map unat (xf_sent (read_xfers tr mtd offset len retlen0 buf0 s ! 1))
          = [unat offset div 256 mod 256, unat offset mod 256]"
    using unat_byte [of 8 offset]
    by (simp add: read_xfers_eq [OF assms a] xf_sent_def unat_byte0 Let_def)
  show "xf_bitlen (read_xfers tr mtd offset len retlen0 buf0 s ! 1) = 16"
    by (simp add: read_xfers_eq [OF assms a] Let_def)
  show "map unat (xf_sent (write_xfers tr mtd offset len retlen0 buf s ! 2))
          = [unat offset div 256 mod 256, unat offset mod 256]"
    using unat_byte [of 8 offset]
    by (simp add: write_xfers_eq [OF assms a] xf_sent_def unat_byte0 Let_def)
  show "xf_bitlen (write_xfers tr mtd offset len retlen0 buf s ! 2) = 16"
    by (simp add: write_xfers_eq [OF assms a] Let_def)
qed

theorem address_bytes_big_endian_witness:
  "dev_data (boot_state\<lparr>dev_data := Some mr25h40_data\<rparr>) = Some mr25h40_data
   \<and> addr_bytes mr25h40_data = 3
   \<and> map unat (xf_sent (read_xfers tr_ok 11 0x010203 16 0 (replicate 16 0)
                         (boot_state\<lparr>dev_data := Some mr25h40_data\<rparr>) ! 1)) = [0x01, 0x02, 0x03]
   \<and> map unat (xf_sent (write_xfers tr_ok 11 0x010203 16 0 (replicate 16 0)
                         (boot_state\<lparr>dev_data := Some mr25h40_data\<rparr>) ! 2)) = [0x01, 0x02, 0x03]
   \<and> dev_data (boot_state\<lparr>dev_data := Some mr25h256_data\<rparr>) = Some mr25h256_data
   \<and> addr_bytes mr25h256_data = 2
   \<and> map unat (xf_sent (read_xfers tr_ok 12 0x1234 16 0 (replicate 16 0)
                         (boot_state\<lparr>dev_data := Some mr25h256_data\<rparr>) ! 1)) = [0x12, 0x34]
   \<and> map unat (xf_sent (write_xfers tr_ok 12 0x1234 16 0 (replicate 16 0)
                         (boot_state\<lparr>dev_data := Some mr25h256_data\<rparr>) ! 2)) = [0x12, 0x34]"
  using address_bytes_big_endian
          [of "boot_state\<lparr>dev_data := Some mr25h40_data\<rparr>" mr25h40_data tr_ok 11 "0x010203" 16 0
              "replicate 16 0" "replicate 16 0"]
        address_bytes_big_endian
          [of "boot_state\<lparr>dev_data := Some mr25h256_data\<rparr>" mr25h256_data tr_ok 12 "0x1234" 16 0
              "replicate 16 0" "replicate 16 0"]
  by (simp add: mr25h40_data_def mr25h256_data_def)

subsection \<open>A read of 16 bytes from an mr25h256\<close>

text \<open>
  Claim C7.  With the geometry of size 0x8000 and address width 2, a read of 16
  bytes at offset 0 issues three transfers in this order: 8 bits, the byte 0x03,
  with \<open>SPI_XFER_BEGIN\<close>; 16 bits from the address array, which sends 0x00 0x00,
  with no flag; 128 bits into the receive buffer with \<open>SPI_XFER_END\<close>.  It returns
  what the third transfer returns, and when that is 0 it stores 16 in \<open>*retlen\<close>.
\<close>

theorem read_scenario_mr25h256:
  assumes "dev_data s = Some d" and "size_m d = 0x8000" and "addr_bytes d = 2"
  shows
    "let priv = mtd_priv (mtds s mtd);
         x1 = \<lparr>xf_dev = priv, xf_bitlen = 8, xf_dout = Some [0x03], xf_din = False,
               xf_flags = {SPI_XFER_BEGIN}\<rparr>;
         x2 = \<lparr>xf_dev = priv, xf_bitlen = 16, xf_dout = Some [0x00, 0x00, 0x00], xf_din = False,
               xf_flags = {}\<rparr>;
         x3 = \<lparr>xf_dev = priv, xf_bitlen = 128, xf_dout = None, xf_din = True,
               xf_flags = {SPI_XFER_END}\<rparr>;
         r = fst (tr (spi_log s @ [x1, x2]) x3);
         rx = snd (tr (spi_log s @ [x1, x2]) x3)
     in spi_mram_read tr mtd 0 16 retlen0 buf0 s
          = Inr (r, if r = 0 then 16 else retlen0, rx_into rx buf0,
                 s\<lparr>spi_log := spi_log s @ [x1, x2, x3]\<rparr>)
        \<and> xf_sent x2 = [0x00, 0x00]"
proof -
  have a: "mram_addr (addr_bytes d) 0 = Some ([0, 0, 0], 16)"
    using assms(3) by (simp add: mram_addr_2)
  show ?thesis
    by (simp add: spi_mram_read_eq [OF assms(1) a] xf_sent_def Let_def)
qed

theorem read_scenario_mr25h256_witness:
  "dev_data (boot_state\<lparr>dev_data := Some mr25h256_data\<rparr>) = Some mr25h256_data
   \<and> size_m mr25h256_data = 0x8000 \<and> addr_bytes mr25h256_data = 2
   \<and> spi_mram_read tr_ok 12 0 16 0 (replicate 16 0xff) (boot_state\<lparr>dev_data := Some mr25h256_data\<rparr>)
       = Inr (0, 16, replicate 16 0,
              boot_state\<lparr>dev_data := Some mr25h256_data,
                spi_log :=
                  [\<lparr>xf_dev = None, xf_bitlen = 8, xf_dout = Some [0x03], xf_din = False,
                    xf_flags = {SPI_XFER_BEGIN}\<rparr>,
                   \<lparr>xf_dev = None, xf_bitlen = 16, xf_dout = Some [0x00, 0x00, 0x00], xf_din = False,
                    xf_flags = {}\<rparr>,
                   \<lparr>xf_dev = None, xf_bitlen = 128, xf_dout = None, xf_din = True,
                    xf_flags = {SPI_XFER_END}\<rparr>]\<rparr>)"
  using read_scenario_mr25h256
          [of "boot_state\<lparr>dev_data := Some mr25h256_data\<rparr>" mr25h256_data 12 tr_ok 0 "replicate 16 0xff"]
  by (simp add: mr25h256_data_def boot_state_def mtd_zero_def tr_ok_def rx_into_def Let_def)

subsection \<open>An address width other than 2 and 3\<close>

text \<open>
  Claim C3.  When the configured address width is neither 2 nor 3, a read and a
  write both return -1, which is not 0, and issue no transfer: the state
  afterwards is the state before with one more line on the console, so the bus
  log, the MTD table, the \<open>mtd_info\<close> objects and the driver's variables are
  as they were; \<open>*retlen\<close> and the read buffer are as they were too.
\<close>
theorem unsupported_width_fails_without_transfer:
  assumes "dev_data s = Some d" and "addr_bytes d \<noteq> 2" and "addr_bytes d \<noteq> 3"
  shows "spi_mram_read tr mtd offset len retlen0 buf0 s
           = Inr (- 1, retlen0, buf0,
                  s\<lparr>console := console s @ [Msg_addr_bytes_unsupported (addr_bytes d)]\<rparr>)
       \<and> spi_mram_write tr mtd offset len retlen0 buf s
           = Inr (- 1, retlen0,
                  s\<lparr>console := console s @ [Msg_addr_bytes_unsupported (addr_bytes d)]\<rparr>)
       \<and> read_xfers tr mtd offset len retlen0 buf0 s = []
       \<and> write_xfers tr mtd offset len retlen0 buf s = []"
  by (simp add: read_xfers_def write_xfers_def spi_mram_read_unsupported [OF assms]
        spi_mram_write_unsupported [OF assms])

theorem unsupported_width_fails_without_transfer_witness:
  "dev_data (boot_state\<lparr>dev_data := Some \<lparr>size_m = 0x80000, addr_bytes = 4\<rparr>\<rparr>)
     = Some \<lparr>size_m = 0x80000, addr_bytes = 4\<rparr>
   \<and> addr_bytes \<lparr>size_m = 0x80000, addr_bytes = 4\<rparr> \<noteq> 2
   \<and> addr_bytes \<lparr>size_m = 0x80000, addr_bytes = 4\<rparr> \<noteq> 3
   \<and> spi_mram_read tr_ok 11 0 16 0 (replicate 16 0xff)
         (boot_state\<lparr>dev_data := Some \<lparr>size_m = 0x80000, addr_bytes = 4\<rparr>\<rparr>)
       = Inr (- 1, 0, replicate 16 0xff,
              boot_state\<lparr>dev_data := Some \<lparr>size_m = 0x80000, addr_bytes = 4\<rparr>,
                         console := [Msg_addr_bytes_unsupported 4]\<rparr>)
   \<and> spi_mram_write tr_ok 11 0 16 0 (replicate 16 0xff)
         (boot_state\<lparr>dev_data := Some \<lparr>size_m = 0x80000, addr_bytes = 4\<rparr>\<rparr>)
       = Inr (- 1, 0,
              boot_state\<lparr>dev_data := Some \<lparr>size_m = 0x80000, addr_bytes = 4\<rparr>,
                         console := [Msg_addr_bytes_unsupported 4]\<rparr>)"
  using unsupported_width_fails_without_transfer
          [of "boot_state\<lparr>dev_data := Some \<lparr>size_m = 0x80000, addr_bytes = 4\<rparr>\<rparr>"
              "\<lparr>size_m = 0x80000, addr_bytes = 4\<rparr>" tr_ok 11 0 16 0 "replicate 16 0xff"
              "replicate 16 0xff"]
  by (simp add: boot_state_def)

subsection \<open>What a refused read reports\<close>

text \<open>
  Claim C5, as stated, asks for \<open>*retlen = 0\<close> after a read that is refused for its
  address width.  The read does not store to \<open>*retlen\<close>: called with 7 there, it
  returns -1 and leaves 7.
\<close>
theorem read_unsupported_width_retlen_counterexample:
  "spi_mram_read tr_ok 11 0 16 7 (replicate 16 0xff)
       (boot_state\<lparr>dev_data := Some \<lparr>size_m = 0x80000, addr_bytes = 4\<rparr>\<rparr>)
     = Inr (- 1, 7, replicate 16 0xff,
            boot_state\<lparr>dev_data := Some \<lparr>size_m = 0x80000, addr_bytes = 4\<rparr>,
                       console := [Msg_addr_bytes_unsupported 4]\<rparr>)
   \<and> (7 :: size_t) \<noteq> 0"
  by (simp add: spi_mram_read_def mram_addr_def boot_state_def)

text \<open>
  Claim C5, amended.  A read with an address width other than 2 and 3 returns -1
  at once, with no transfer, and leaves \<open>*retlen\<close> (and the buffer) as the caller
  passed them: the length reported is 0 exactly when the caller had put 0 there.
\<close>

theorem read_unsupported_width_keeps_retlen:
  assumes "dev_data s = Some d" and "addr_bytes d \<noteq> 2" and "addr_bytes d \<noteq> 3"
  shows "\<exists>s'. spi_mram_read tr mtd offset len retlen0 buf0 s = Inr (- 1, retlen0, buf0, s')
              \<and> spi_log s' = spi_log s"
  by (simp add: spi_mram_read_unsupported [OF assms])

theorem read_unsupported_width_keeps_retlen_witness:
  "dev_data (boot_state\<lparr>dev_data := Some \<lparr>size_m = 0x80000, addr_bytes = 4\<rparr>\<rparr>)
     = Some \<lparr>size_m = 0x80000, addr_bytes = 4\<rparr>
   \<and> addr_bytes \<lparr>size_m = 0x80000, addr_bytes = 4\<rparr> \<noteq> 2
   \<and> addr_bytes \<lparr>size_m = 0x80000, addr_bytes = 4\<rparr> \<noteq> 3
   \<and> (\<exists>s'. spi_mram_read tr_ok 11 0 16 7 (replicate 16 0xff)
               (boot_state\<lparr>dev_data := Some \<lparr>size_m = 0x80000, addr_bytes = 4\<rparr>\<rparr>)
             = Inr (- 1, 7, replicate 16 0xff, s')
           \<and> spi_log s' = [])"
  using read_unsupported_width_keeps_retlen
          [of "boot_state\<lparr>dev_data := Some \<lparr>size_m = 0x80000, addr_bytes = 4\<rparr>\<rparr>"
              "\<lparr>size_m = 0x80000, addr_bytes = 4\<rparr>" tr_ok 11 0 16 7 "replicate 16 0xff"]
  by (simp add: boot_state_def)

subsection \<open>The write-enable transaction\<close>

text \<open>
  Claim C6.  With an address width of 2 or 3, whatever the bus returns, a write
  issues four transfers.  The first is the write-enable transaction: 8 bits, the
  byte 0x06, with both \<open>SPI_XFER_BEGIN\<close> and \<open>SPI_XFER_END\<close>, and it is the only one of
  the four that carries both flags.  It is followed by the transaction made of
  the opcode 0x02 (\<open>SPI_XFER_BEGIN\<close>), the address (no flag) and the data
  (\<open>SPI_XFER_END\<close>).  The write leaves \<open>dev_data\<close> as it was, so the same holds for
  the next write.
\<close>
theorem write_issues_one_write_enable:
  assumes "dev_data s = Some d" and "addr_bytes d = 2 \<or> addr_bytes d = 3"
  shows
    "let wren = \<lparr>xf_dev = mtd_priv (mtds s mtd), xf_bitlen = 8, xf_dout = Some [0x06],
                 xf_din = False, xf_flags = {SPI_XFER_BEGIN, SPI_XFER_END}\<rparr>;
         xs = write_xfers tr mtd offset len retlen0 buf s
     in length xs = 4 \<and> hd xs = wren \<and> xf_sent wren = [0x06]
        \<and> filter (\<lambda>x. xf_flags x = {SPI_XFER_BEGIN, SPI_XFER_END}) xs = [wren]
        \<and> map xf_flags (tl xs) = [{SPI_XFER_BEGIN}, {}, {SPI_XFER_END}]
        \<and> xf_sent (xs ! 1) = [0x02]
        \<and> xf_dout (xs ! 3) = Some buf
        \<and> (\<exists>r n s'. spi_mram_write tr mtd offset len retlen0 buf s = Inr (r, n, s')
                     \<and> spi_log s' = spi_log s @ xs \<and> dev_data s' = dev_data s)"
proof -
  obtain addr addr_bits where a: "mram_addr (addr_bytes d) offset = Some (addr, addr_bits)"
    using assms(2) by (auto simp: mram_addr_2 mram_addr_3)
  have ne: "{SPI_XFER_BEGIN} \<noteq> {SPI_XFER_BEGIN, SPI_XFER_END}"
    "{SPI_XFER_END} \<noteq> {SPI_XFER_BEGIN, SPI_XFER_END}"
    by auto
  show ?thesis
    using ne
    by (simp add: write_xfers_eq [OF assms(1) a] spi_mram_write_eq [OF assms(1) a] xf_sent_def Let_def)
qed

theorem write_issues_one_write_enable_witness:
  "dev_data (boot_state\<lparr>dev_data := Some mr25h256_data\<rparr>) = Some mr25h256_data
   \<and> (addr_bytes mr25h256_data = 2 \<or> addr_bytes mr25h256_data = 3)
   \<and> write_xfers tr_begin_fails 12 0x1234 2 0 [0xAB, 0xCD] (boot_state\<lparr>dev_data := Some mr25h256_data\<rparr>)
       = [\<lparr>xf_dev = None, xf_bitlen = 8, xf_dout = Some [0x06], xf_din = False,
            xf_flags = {SPI_XFER_BEGIN, SPI_XFER_END}\<rparr>,
          \<lparr>xf_dev = None, xf_bitlen = 8, xf_dout = Some [0x02], xf_din = False,
            xf_flags = {SPI_XFER_BEGIN}\<rparr>,
          \<lparr>xf_dev = None, xf_bitlen = 16, xf_dout = Some [0x12, 0x34, 0x00], xf_din = False,
            xf_flags = {}\<rparr>,
          \<lparr>xf_dev = None, xf_bitlen = 16, xf_dout = Some [0xAB, 0xCD], xf_din = False,
            xf_flags = {SPI_XFER_END}\<rparr>]
   \<and> filter (\<lambda>x. xf_flags x = {SPI_XFER_BEGIN, SPI_XFER_END})
        (write_xfers tr_begin_fails 12 0x1234 2 0 [0xAB, 0xCD] (boot_state\<lparr>dev_data := Some mr25h256_data\<rparr>))
       = [\<lparr>xf_dev = None, xf_bitlen = 8, xf_dout = Some [0x06], xf_din = False,
            xf_flags = {SPI_XFER_BEGIN, SPI_XFER_END}\<rparr>]"
  using write_issues_one_write_enable
          [of "boot_state\<lparr>dev_data := Some mr25h256_data\<rparr>" mr25h256_data 12 tr_begin_fails "0x1234" 2 0
              "[0xAB, 0xCD]"]
  by (simp add: write_xfers_def spi_mram_write_def dm_spi_xfer_def mram_addr_def mr25h256_data_def
        boot_state_def mtd_zero_def tr_begin_fails_def Let_def)

subsection \<open>The length reported after a failed transfer\<close>

text \<open>
  Claim C2 asks that \<open>*retlen\<close> be set only when every transfer of the call
  succeeded.  The code tests the return value of the last transfer alone.  On a
  bus where the transfers that assert chip-select fail with -5 and the others
  succeed, a read of 16 bytes returns 0 and reports 16 bytes although its opcode
  transfer failed, and a write of 2 bytes returns 0 and reports 2 bytes although
  its write-enable and opcode transfers failed.
\<close>

theorem retlen_set_after_failed_phase:
  "tr_begin_fails [] \<lparr>xf_dev = None, xf_bitlen = 8, xf_dout = Some [0x03], xf_din = False,
                      xf_flags = {SPI_XFER_BEGIN}\<rparr> = (- 5, [])
   \<and> spi_mram_read tr_begin_fails 12 0 16 0 (replicate 16 0xff)
         (boot_state\<lparr>dev_data := Some mr25h256_data\<rparr>)
       = Inr (0, 16, replicate 16 0,
              boot_state\<lparr>dev_data := Some mr25h256_data,
                spi_log :=
                  [\<lparr>xf_dev = None, xf_bitlen = 8, xf_dout = Some [0x03], xf_din = False,
                    xf_flags = {SPI_XFER_BEGIN}\<rparr>,
                   \<lparr>xf_dev = None, xf_bitlen = 16, xf_dout = Some [0x00, 0x00, 0x00], xf_din = False,
                    xf_flags = {}\<rparr>,
                   \<lparr>xf_dev = None, xf_bitlen = 128, xf_dout = None, xf_din = True,
                    xf_flags = {SPI_XFER_END}\<rparr>]\<rparr>)
   \<and> tr_begin_fails [] \<lparr>xf_dev = None, xf_bitlen = 8, xf_dout = Some [0x06], xf_din = False,
                        xf_flags = {SPI_XFER_BEGIN, SPI_XFER_END}\<rparr> = (- 5, [])
   \<and> spi_mram_write tr_begin_fails 12 0 2 0 [0xAB, 0xCD]
         (boot_state\<lparr>dev_data := Some mr25h256_data\<rparr>)
       = Inr (0, 2,
              boot_state\<lparr>dev_data := Some mr25h256_data,
                spi_log :=
                  [\<lparr>xf_dev = None, xf_bitlen = 8, xf_dout = Some [0x06], xf_din = False,
                    xf_flags = {SPI_XFER_BEGIN, SPI_XFER_END}\<rparr>,
                   \<lparr>xf_dev = None, xf_bitlen = 8, xf_dout = Some [0x02], xf_din = False,
                    xf_flags = {SPI_XFER_BEGIN}\<rparr>,
                   \<lparr>xf_dev = None, xf_bitlen = 16, xf_dout = Some [0x00, 0x00, 0x00], xf_din = False,
                    xf_flags = {}\<rparr>,
                   \<lparr>xf_dev = None, xf_bitlen = 16, xf_dout = Some [0xAB, 0xCD], xf_din = False,
                    xf_flags = {SPI_XFER_END}\<rparr>]\<rparr>)"
  by (simp add: spi_mram_read_def spi_mram_write_def dm_spi_xfer_def mram_addr_def mr25h256_data_def
        boot_state_def mtd_zero_def tr_begin_fails_def rx_into_def Let_def)

subsection \<open>The buffer that erase writes\<close>

lemma replicate_8: "replicate 8 x = [x, x, x, x, x, x, x, x]"
  by (simp add: eval_nat_numeral)

lemma upt_16: "[0..<16] = [0, 1, 2, 3, 4, 5, 6, 7, 8, 9, 10, 11, 12, 13, 14, 15]"
  by code_simp

text \<open>
  With a supported address width, a successful allocation and a length of at
  least \<open>sizeof(buffer)\<close>, the data transfer of an erase is passed a buffer whose
  first 8 bytes are zero and whose other bytes are what the allocation held.
\<close>

lemma spi_mram_erase_buffer:
  assumes "dev_data s = Some d" and "addr_bytes d = 2 \<or> addr_bytes d = 3"
    and "8 \<le> unat (ei_len instr)"
  shows "xf_dout (erase_xfers tr (Some g) mtd instr s ! 3)
           = Some (replicate 8 0 @ map g [8..<unat (ei_len instr)])"
proof -
  obtain addr addr_bits where a: "mram_addr (addr_bytes d) (ei_addr instr) = Some (addr, addr_bits)"
    using assms(2) by (auto simp: mram_addr_2 mram_addr_3)
  have m: "memset (kmalloc (Some g) (unat (ei_len instr))) 0 sizeof_buffer
             = Inr (replicate 8 0 @ map g [8..<unat (ei_len instr)])"
    using assms(3) by (simp add: memset_def kmalloc_def sizeof_buffer_def drop_map)
  show ?thesis
    by (simp add: erase_xfers_def spi_mram_erase_def m spi_mram_write_eq [OF assms(1) a] Let_def)
qed

text \<open>An erase shorter than \<open>sizeof(buffer)\<close> has \<open>memset\<close> write past the allocation.\<close>

lemma spi_mram_erase_short:
  assumes "unat (ei_len instr) < 8"
  shows "spi_mram_erase tr (Some g) mtd instr s = (Inl Out_of_bounds, s)"
  using assms by (simp add: spi_mram_erase_def kmalloc_def memset_def sizeof_buffer_def)

text \<open>
  No erase returns 0: when the write has succeeded, it has stored 8 bytes into the
  4 bytes of \<open>retlen\<close>.
\<close>

lemma spi_mram_erase_never_returns_0:
  "fst (spi_mram_erase tr heap mtd instr s) \<noteq> Inr 0"
  by (simp add: spi_mram_erase_def sizeof_int_def sizeof_size_t_def Let_def
      split: sum.splits prod.splits)

text \<open>
  Claim C1 asks that erase write a buffer of \<open>length\<close> zero bytes.  The \<open>memset\<close>
  clears \<open>sizeof(buffer)\<close> bytes, the size of the pointer, not \<open>instr->len\<close> bytes.
  Take an erase of 16 bytes at offset 0 of an mr25h256, with an allocation that
  held 0xAA in every byte.  On a bus where every transfer succeeds, the data
  transfer sends eight zero bytes followed by eight bytes 0xAA, and the call then
  faults on the store to \<open>retlen\<close>.  On a bus where the data transfer fails, so
  that nothing is stored to \<open>retlen\<close>, the call returns -5 and the data transfer
  was passed the same sixteen bytes.
\<close>

theorem erase_sends_uninitialised_bytes:
  "fst (spi_mram_erase tr_ok (Some (\<lambda>i. 0xAA)) 12 \<lparr>ei_addr = 0, ei_len = 16\<rparr>
          (boot_state\<lparr>dev_data := Some mr25h256_data\<rparr>)) = Inl Out_of_bounds
   \<and> map xf_sent (erase_xfers tr_ok (Some (\<lambda>i. 0xAA)) 12 \<lparr>ei_addr = 0, ei_len = 16\<rparr>
                     (boot_state\<lparr>dev_data := Some mr25h256_data\<rparr>))
       = [[0x06], [0x02], [0x00, 0x00],
          [0, 0, 0, 0, 0, 0, 0, 0, 0xAA, 0xAA, 0xAA, 0xAA, 0xAA, 0xAA, 0xAA, 0xAA]]
   \<and> fst (spi_mram_erase tr_data_fails (Some (\<lambda>i. 0xAA)) 12 \<lparr>ei_addr = 0, ei_len = 16\<rparr>
          (boot_state\<lparr>dev_data := Some mr25h256_data\<rparr>)) = Inr (- 5)
   \<and> map xf_sent (erase_xfers tr_data_fails (Some (\<lambda>i. 0xAA)) 12 \<lparr>ei_addr = 0, ei_len = 16\<rparr>
                     (boot_state\<lparr>dev_data := Some mr25h256_data\<rparr>))
       = [[0x06], [0x02], [0x00, 0x00],
          [0, 0, 0, 0, 0, 0, 0, 0, 0xAA, 0xAA, 0xAA, 0xAA, 0xAA, 0xAA, 0xAA, 0xAA]]"
  by (simp add: erase_xfers_def spi_mram_erase_def kmalloc_def memset_def sizeof_buffer_def upt_16
        sizeof_int_def sizeof_size_t_def
        replicate_8 spi_mram_write_def dm_spi_xfer_def mram_addr_def mr25h256_data_def xf_sent_def
        boot_state_def mtd_zero_def tr_ok_def tr_data_fails_def Let_def)

subsection \<open>Registration\<close>

lemma count_list_remove1: "count_list (remove1 x xs) x = count_list xs x - 1"
  by (induction xs) auto

lemma spi_mram_mtd_register_fill:
  "(mtds s mtd)\<lparr>mtd_name := mram_mtd_name, mtd_type := MTD_RAM, mtd_flags := MTD_CAP_RAM,
      mtd_erase := Some spi_mram_erase_fn, mtd_read := Some spi_mram_read_fn,
      mtd_write := Some spi_mram_write_fn, mtd_sync := Some spi_mram_sync_fn,
      mtd_size := sz, mtd_writesize := 1, mtd_writebufsize := 265,
      mtd_numeraseregions := 0, mtd_erasesize := 1\<rparr> = mtd_filled sz (mtd_priv (mtds s mtd))"
  by (simp add: mtd_filled_def mram_mtd_name_def)

lemma register_fresh:
  assumes "\<not> mram_mtd_registered s" and "dev_data s = Some d"
  shows "spi_mram_mtd_register del_ret add_ret mtd s =
    Inr (add_ret,
         s\<lparr>mram_mtd_registered := (add_ret = 0),
           mtds := (mtds s)(mtd := mtd_filled (size_m d) (mtd_priv (mtds s mtd))),
           mtd_table := (if add_ret = 0 then mtd_table s @ [mtd] else mtd_table s),
           mtd_log := mtd_log s @ [Call_add_mtd_device mtd add_ret]\<rparr>)"
  using assms
  by (auto simp add: spi_mram_mtd_register_def add_mtd_device_def Let_def spi_mram_mtd_register_fill)

lemma register_del_failed:
  assumes "mram_mtd_registered s" and "del_ret \<noteq> 0"
  shows "spi_mram_mtd_register del_ret add_ret mtd s =
    Inr (del_ret, s\<lparr>mtd_log := mtd_log s @ [Call_del_mtd_device mtd del_ret]\<rparr>)"
  using assms
  by (simp add: spi_mram_mtd_register_def del_mtd_device_def Let_def)

lemma register_again:
  assumes "mram_mtd_registered s" and "dev_data s = Some d"
  shows "spi_mram_mtd_register 0 add_ret mtd s =
    Inr (add_ret,
         s\<lparr>mram_mtd_registered := (add_ret = 0),
           mtds := (mtds s)(mtd := mtd_filled (size_m d) (mtd_priv (mtds s mtd))),
           mtd_table := (if add_ret = 0 then remove1 mtd (mtd_table s) @ [mtd]
                         else remove1 mtd (mtd_table s)),
           mtd_log := mtd_log s @ [Call_del_mtd_device mtd 0, Call_add_mtd_device mtd add_ret]\<rparr>)"
  using assms
  by (auto simp add: spi_mram_mtd_register_def add_mtd_device_def del_mtd_device_def Let_def
      spi_mram_mtd_register_fill)

text \<open>The two probes behind \<open>state_a\<close> and \<open>state_ab\<close>.\<close>

lemma probe_a: "spi_mram_probe True 0 0 0 dev_a boot_state = Inr (0, state_a)"
  by (simp add: spi_mram_probe_def spi_mram_mtd_register_def add_mtd_device_def dev_a_def
      boot_state_def state_a_def dev_get_driver_data_def spi_mram_ids_def mtd_zero_def mtd_filled_def
      mram_mtd_name_def mr25h40_data_def Let_def)

lemma probe_b: "spi_mram_probe True 0 (- 19) 0 dev_b state_a = Inr (- 19, state_ab)"
  by (simp add: spi_mram_probe_def spi_mram_mtd_register_def del_mtd_device_def dev_b_def
      state_a_def state_ab_def dev_get_driver_data_def spi_mram_ids_def mtd_zero_def mtd_filled_def
      mram_mtd_name_def mr25h256_data_def Let_def fun_upd_twist)

text \<open>
  Claim C8.  Register is called while the flag is set and the table holds the
  device's \<open>mtd_info\<close> once.  If \<open>del_mtd_device\<close> succeeds, the calls to the MTD
  core are the removal and then the addition, in this order; the table between
  the two does not hold the entry; the flag afterwards is set exactly when the
  addition succeeded, so it was cleared in between.  If \<open>del_mtd_device\<close> fails,
  register returns its error and makes no other call: table and flag stay as
  they were.  Every table that the call goes through holds the entry at most once.
\<close>
theorem register_again_replaces_entry:
  assumes "mram_mtd_registered s" and "count_list (mtd_table s) mtd = 1" and "dev_data s = Some d"
  shows "\<exists>ret s'. spi_mram_mtd_register del_ret add_ret mtd s = Inr (ret, s')
           \<and> (let calls = drop (length (mtd_log s)) (mtd_log s');
                   ts = tables_along (mtd_table s) calls
               in calls = (if del_ret = 0
                           then [Call_del_mtd_device mtd 0, Call_add_mtd_device mtd add_ret]
                           else [Call_del_mtd_device mtd del_ret])
                  \<and> last ts = mtd_table s'
                  \<and> list_all (\<lambda>t. count_list t mtd \<le> 1) ts
                  \<and> (if del_ret = 0
                      then count_list (ts ! 1) mtd = 0
                           \<and> count_list (mtd_table s') mtd = (if add_ret = 0 then 1 else 0)
                           \<and> mram_mtd_registered s' = (add_ret = 0)
                           \<and> ret = add_ret
                      else mtd_table s' = mtd_table s \<and> mram_mtd_registered s' \<and> ret = del_ret))"
proof (cases "del_ret = 0")
  case True
  show ?thesis
    using assms(2)
    by (simp add: True register_again [OF assms(1) assms(3)] count_list_remove1 Let_def)
next
  case False
  show ?thesis
    using assms(1) assms(2)
    by (simp add: False register_del_failed [OF assms(1) False] Let_def)
qed

theorem register_again_replaces_entry_witness:
  "mram_mtd_registered state_a \<and> count_list (mtd_table state_a) 11 = 1
   \<and> dev_data state_a = Some mr25h40_data
   \<and> (\<exists>s'. spi_mram_mtd_register 0 0 11 state_a = Inr (0, s')
           \<and> mtd_log s' = [Call_add_mtd_device 11 0, Call_del_mtd_device 11 0, Call_add_mtd_device 11 0]
           \<and> tables_along (mtd_table state_a) (drop (length (mtd_log state_a)) (mtd_log s'))
                = [[11], [], [11]]
           \<and> mtd_table s' = [11] \<and> mram_mtd_registered s')
   \<and> (\<exists>s'. spi_mram_mtd_register 0 (- 12) 11 state_a = Inr (- 12, s')
           \<and> mtd_table s' = [] \<and> \<not> mram_mtd_registered s')
   \<and> (\<exists>s'. spi_mram_mtd_register (- 16) 0 11 state_a = Inr (- 16, s')
           \<and> mtd_table s' = [11] \<and> mram_mtd_registered s')"
  using register_again_replaces_entry [of state_a 11 mr25h40_data 0 0]
        register_again_replaces_entry [of state_a 11 mr25h40_data 0 "- 12"]
        register_again_replaces_entry [of state_a 11 mr25h40_data "- 16" 0]
  by (simp add: state_a_def spi_mram_mtd_register_def add_mtd_device_def del_mtd_device_def Let_def)


subsection \<open>The variants and the registered entry\<close>

text \<open>
  Claim C9.  The table of variants is the four pairs of the claim, in the order
  of the source.  When a device whose model string selects the record \<open>d\<close> is
  probed (bus claimed, MTD registration enabled and not stopped by a failed
  removal), the \<open>mtd_info\<close> handed to the MTD core has the size of \<open>d\<close>, write size
  1, erase size 1, the flags \<open>MTD_CAP_RAM\<close> and the type \<open>MTD_RAM\<close>, and it is in the
  table when the addition succeeded.
\<close>
theorem variant_table_and_registry_entry:
  assumes "dev_get_driver_data dev = Some d" and "mram_mtd_registered s \<longrightarrow> del_ret = 0"
  shows "spi_mram_ids =
           [(''mr25h40'', \<lparr>size_m = 0x80000, addr_bytes = 3\<rparr>),
            (''mr25h10'', \<lparr>size_m = 0x20000, addr_bytes = 3\<rparr>),
            (''mr25h256'', \<lparr>size_m = 0x8000, addr_bytes = 2\<rparr>),
            (''mr25h128'', \<lparr>size_m = 0x4000, addr_bytes = 2\<rparr>)]
       \<and> (compatible dev, d) \<in> set spi_mram_ids
       \<and> (\<exists>s'. spi_mram_probe True 0 del_ret add_ret dev s = Inr (add_ret, s')
                \<and> mtd_size (mtds s' (uclass_priv dev)) = size_m d
                \<and> mtd_writesize (mtds s' (uclass_priv dev)) = 1
                \<and> mtd_erasesize (mtds s' (uclass_priv dev)) = 1
                \<and> mtd_flags (mtds s' (uclass_priv dev)) = MTD_CAP_RAM
                \<and> mtd_type (mtds s' (uclass_priv dev)) = MTD_RAM
                \<and> (add_ret = 0 \<longrightarrow> uclass_priv dev \<in> set (mtd_table s')))"
proof (intro conjI)
  show "spi_mram_ids =
           [(''mr25h40'', \<lparr>size_m = 0x80000, addr_bytes = 3\<rparr>),
            (''mr25h10'', \<lparr>size_m = 0x20000, addr_bytes = 3\<rparr>),
            (''mr25h256'', \<lparr>size_m = 0x8000, addr_bytes = 2\<rparr>),
            (''mr25h128'', \<lparr>size_m = 0x4000, addr_bytes = 2\<rparr>)]"
    by (simp add: spi_mram_ids_def mr25h40_data_def mr25h10_data_def mr25h256_data_def
        mr25h128_data_def)
  show "(compatible dev, d) \<in> set spi_mram_ids"
    using assms(1) unfolding dev_get_driver_data_def by (rule map_of_SomeD)
  let ?s0 = "s\<lparr>mtds := (mtds s)(uclass_priv dev := (mtds s (uclass_priv dev))
                     \<lparr>mtd_priv := Some (dev_addr dev)\<rparr>),
               dev_data := dev_get_driver_data dev\<rparr>"
  have p: "spi_mram_probe True 0 dr add_ret dev s
             = spi_mram_mtd_register dr add_ret (uclass_priv dev) ?s0" for dr
    by (simp add: spi_mram_probe_def Let_def)
  have dd: "dev_data ?s0 = Some d"
    using assms(1) by simp
  show "\<exists>s'. spi_mram_probe True 0 del_ret add_ret dev s = Inr (add_ret, s')
                \<and> mtd_size (mtds s' (uclass_priv dev)) = size_m d
                \<and> mtd_writesize (mtds s' (uclass_priv dev)) = 1
                \<and> mtd_erasesize (mtds s' (uclass_priv dev)) = 1
                \<and> mtd_flags (mtds s' (uclass_priv dev)) = MTD_CAP_RAM
                \<and> mtd_type (mtds s' (uclass_priv dev)) = MTD_RAM
                \<and> (add_ret = 0 \<longrightarrow> uclass_priv dev \<in> set (mtd_table s'))"
  proof (cases "mram_mtd_registered s")
    case True
    then have r: "mram_mtd_registered ?s0" by simp
    from True assms(2) have z: "del_ret = 0" by simp
    show ?thesis
      by (simp add: z p register_again [OF r dd] mtd_filled_def)
  next
    case False
    then have r: "\<not> mram_mtd_registered ?s0" by simp
    show ?thesis
      by (simp add: p register_fresh [OF r dd] mtd_filled_def)
  qed
qed

theorem variant_table_and_registry_entry_witness:
  "dev_get_driver_data dev_a = Some \<lparr>size_m = 0x80000, addr_bytes = 3\<rparr>
   \<and> \<not> mram_mtd_registered boot_state
   \<and> map_of spi_mram_ids ''mr25h40'' = Some \<lparr>size_m = 0x80000, addr_bytes = 3\<rparr>
   \<and> map_of spi_mram_ids ''mr25h10'' = Some \<lparr>size_m = 0x20000, addr_bytes = 3\<rparr>
   \<and> map_of spi_mram_ids ''mr25h256'' = Some \<lparr>size_m = 0x8000, addr_bytes = 2\<rparr>
   \<and> map_of spi_mram_ids ''mr25h128'' = Some \<lparr>size_m = 0x4000, addr_bytes = 2\<rparr>
   \<and> spi_mram_probe True 0 0 0 dev_a boot_state = Inr (0, state_a)
   \<and> mtd_size (mtds state_a (uclass_priv dev_a)) = 0x80000
   \<and> mtd_writesize (mtds state_a (uclass_priv dev_a)) = 1
   \<and> mtd_erasesize (mtds state_a (uclass_priv dev_a)) = 1
   \<and> mtd_flags (mtds state_a (uclass_priv dev_a)) = MTD_CAP_RAM
   \<and> mtd_table state_a = [uclass_priv dev_a]"
proof -
  have d: "dev_get_driver_data dev_a = Some \<lparr>size_m = 0x80000, addr_bytes = 3\<rparr>"
    by (simp add: dev_get_driver_data_def spi_mram_ids_def mr25h40_data_def dev_a_def)
  have r: "mram_mtd_registered boot_state \<longrightarrow> (0::int) = 0"
    by simp
  have t: "spi_mram_ids =
           [(''mr25h40'', \<lparr>size_m = 0x80000, addr_bytes = 3\<rparr>),
            (''mr25h10'', \<lparr>size_m = 0x20000, addr_bytes = 3\<rparr>),
            (''mr25h256'', \<lparr>size_m = 0x8000, addr_bytes = 2\<rparr>),
            (''mr25h128'', \<lparr>size_m = 0x4000, addr_bytes = 2\<rparr>)]"
    and e: "\<exists>s'. spi_mram_probe True 0 0 0 dev_a boot_state = Inr (0, s')
                \<and> mtd_size (mtds s' (uclass_priv dev_a)) = size_m \<lparr>size_m = 0x80000, addr_bytes = 3\<rparr>
                \<and> mtd_writesize (mtds s' (uclass_priv dev_a)) = 1
                \<and> mtd_erasesize (mtds s' (uclass_priv dev_a)) = 1
                \<and> mtd_flags (mtds s' (uclass_priv dev_a)) = MTD_CAP_RAM
                \<and> mtd_type (mtds s' (uclass_priv dev_a)) = MTD_RAM
                \<and> ((0::int) = 0 \<longrightarrow> uclass_priv dev_a \<in> set (mtd_table s'))"
    using variant_table_and_registry_entry [OF d r, of 0] by blast+
  have m: "map_of spi_mram_ids ''mr25h40'' = Some \<lparr>size_m = 0x80000, addr_bytes = 3\<rparr>"
    "map_of spi_mram_ids ''mr25h10'' = Some \<lparr>size_m = 0x20000, addr_bytes = 3\<rparr>"
    "map_of spi_mram_ids ''mr25h256'' = Some \<lparr>size_m = 0x8000, addr_bytes = 2\<rparr>"
    "map_of spi_mram_ids ''mr25h128'' = Some \<lparr>size_m = 0x4000, addr_bytes = 2\<rparr>"
    unfolding t by simp_all
  from e obtain s' where p: "spi_mram_probe True 0 0 0 dev_a boot_state = Inr (0, s')"
    and f: "mtd_size (mtds s' (uclass_priv dev_a)) = 0x80000"
      "mtd_writesize (mtds s' (uclass_priv dev_a)) = 1"
      "mtd_erasesize (mtds s' (uclass_priv dev_a)) = 1"
      "mtd_flags (mtds s' (uclass_priv dev_a)) = MTD_CAP_RAM"
    by auto
  from p have s': "s' = state_a" by (simp add: probe_a)
  have tb: "mtd_table state_a = [uclass_priv dev_a]"
    by (simp add: state_a_def dev_a_def)
  have nr: "\<not> mram_mtd_registered boot_state"
    by (simp add: boot_state_def)
  show ?thesis
    using d nr m p f tb unfolding s' by simp
qed

subsection \<open>Where the geometry comes from\<close>

text \<open>
  The requests of a read and of a write are a function of \<open>dev_data\<close>, the offset,
  the length and, for a write, the data: neither the \<open>mtd_info\<close> passed nor
  anything else in the state has a part in them.
\<close>

lemma read_xfers_request:
  "map xf_request (read_xfers tr mtd offset len retlen0 buf0 s) =
     (case dev_data s of
        None \<Rightarrow> []
      | Some d \<Rightarrow>
          (case mram_addr (addr_bytes d) offset of
             None \<Rightarrow> []
           | Some (addr, addr_bits) \<Rightarrow>
               [(8, Some [0x03], False, {SPI_XFER_BEGIN}),
                (addr_bits, Some addr, False, {}),
                (ucast (8 * len), None, True, {SPI_XFER_END})]))"
proof (cases "dev_data s")
  case None
  then show ?thesis by (simp add: read_xfers_def spi_mram_read_def)
next
  case (Some d)
  show ?thesis
  proof (cases "mram_addr (addr_bytes d) offset")
    case None
    then show ?thesis using Some by (simp add: read_xfers_def spi_mram_read_def)
  next
    case (Some a)
    obtain addr addr_bits where a: "a = (addr, addr_bits)" by (cases a)
    show ?thesis
      using \<open>dev_data s = Some d\<close> Some
      by (simp add: a read_xfers_eq [OF \<open>dev_data s = Some d\<close> Some [unfolded a]] xf_request_def Let_def)
  qed
qed

lemma write_xfers_request:
  "map xf_request (write_xfers tr mtd offset len retlen0 buf s) =
     (case dev_data s of
        None \<Rightarrow> []
      | Some d \<Rightarrow>
          (case mram_addr (addr_bytes d) offset of
             None \<Rightarrow> []
           | Some (addr, addr_bits) \<Rightarrow>
               [(8, Some [0x06], False, {SPI_XFER_BEGIN, SPI_XFER_END}),
                (8, Some [0x02], False, {SPI_XFER_BEGIN}),
                (addr_bits, Some addr, False, {}),
                (ucast (8 * len), Some buf, False, {SPI_XFER_END})]))"
proof (cases "dev_data s")
  case None
  then show ?thesis by (simp add: write_xfers_def spi_mram_write_def)
next
  case (Some d)
  show ?thesis
  proof (cases "mram_addr (addr_bytes d) offset")
    case None
    then show ?thesis using Some by (simp add: write_xfers_def spi_mram_write_def)
  next
    case (Some a)
    obtain addr addr_bits where a: "a = (addr, addr_bits)" by (cases a)
    show ?thesis
      using \<open>dev_data s = Some d\<close> Some
      by (simp add: a write_xfers_eq [OF \<open>dev_data s = Some d\<close> Some [unfolded a]] xf_request_def Let_def)
  qed
qed

lemma probe_sets_dev_data:
  assumes "spi_mram_probe cfg 0 del_ret add_ret dev s = Inr (ret, s')"
  shows "dev_data s' = dev_get_driver_data dev"
  using assms
  by (auto simp: spi_mram_probe_def spi_mram_mtd_register_def add_mtd_device_def del_mtd_device_def
      Let_def split: if_splits option.splits)

lemma remove_clears_dev_data: "dev_data (snd (spi_mram_remove cfg del_ret dev s)) = None"
  by (simp add: spi_mram_remove_def Let_def)


lemma register_size_from_dev_data:
  assumes "dev_data s = Some d" and "mram_mtd_registered s \<longrightarrow> del_ret = 0"
  shows "\<exists>ret s'. spi_mram_mtd_register del_ret add_ret mtd s = Inr (ret, s')
                  \<and> mtd_size (mtds s' mtd) = size_m d"
proof (cases "mram_mtd_registered s")
  case True
  with assms(2) have z: "del_ret = 0" by simp
  show ?thesis by (simp add: z register_again [OF True assms(1)] mtd_filled_def)
next
  case False
  show ?thesis by (simp add: register_fresh [OF False assms(1)] mtd_filled_def)
qed

text \<open>
  Claim C10.  The address width of a read and of a write is the one of the
  file-scope \<open>dev_data\<close>, whatever handle is passed: with 3 there they send the
  opcode, a 24-bit address and the data, with 2 a 16-bit address, with another
  width nothing, and with \<open>NULL\<close> there they fault.  Hence calls on any two handles,
  in any two states with the same \<open>dev_data\<close>, on any two buses, issue the same
  requests.  Register copies the size from \<open>dev_data\<close> into whichever \<open>mtd_info\<close>
  it is given.  A probe that has claimed the bus leaves \<open>dev_data\<close> at the record
  of the device probed, also when the registration that follows fails, and
  remove leaves it at \<open>NULL\<close>, so that a read or a write on any handle faults
  afterwards.  So after \<open>dev_a\<close>, a part with 3 address bytes, and then \<open>dev_b\<close>,
  a part with 2, were probed, a read and a write through the \<open>mtd_info\<close> of
  \<open>dev_a\<close> send a 2-byte address, where before the second probe they sent 3 bytes.
\<close>

theorem geometry_from_shared_dev_data:
  "map xf_request (read_xfers tr m offset len r b s) =
     (case dev_data s of
        None \<Rightarrow> []
      | Some d \<Rightarrow>
          if addr_bytes d = 3 then
            [(8, Some [0x03], False, {SPI_XFER_BEGIN}),
             (24, Some [ucast (drop_bit 16 offset), ucast (drop_bit 8 offset), ucast offset],
              False, {}),
             (ucast (8 * len), None, True, {SPI_XFER_END})]
          else if addr_bytes d = 2 then
            [(8, Some [0x03], False, {SPI_XFER_BEGIN}),
             (16, Some [ucast (drop_bit 8 offset), ucast offset, 0], False, {}),
             (ucast (8 * len), None, True, {SPI_XFER_END})]
          else [])
   \<and> map xf_request (write_xfers tr m offset len r wb s) =
     (case dev_data s of
        None \<Rightarrow> []
      | Some d \<Rightarrow>
          if addr_bytes d = 3 then
            [(8, Some [0x06], False, {SPI_XFER_BEGIN, SPI_XFER_END}),
             (8, Some [0x02], False, {SPI_XFER_BEGIN}),
             (24, Some [ucast (drop_bit 16 offset), ucast (drop_bit 8 offset), ucast offset],
              False, {}),
             (ucast (8 * len), Some wb, False, {SPI_XFER_END})]
          else if addr_bytes d = 2 then
            [(8, Some [0x06], False, {SPI_XFER_BEGIN, SPI_XFER_END}),
             (8, Some [0x02], False, {SPI_XFER_BEGIN}),
             (16, Some [ucast (drop_bit 8 offset), ucast offset, 0], False, {}),
             (ucast (8 * len), Some wb, False, {SPI_XFER_END})]
          else [])
   \<and> (dev_data s = dev_data t \<longrightarrow>
        map xf_request (read_xfers tr m offset len r b s)
          = map xf_request (read_xfers tr2 m2 offset len r2 b2 t)
      \<and> map xf_request (write_xfers tr m offset len r wb s)
          = map xf_request (write_xfers tr2 m2 offset len r2 wb t))
   \<and> (dev_data sr = Some d \<longrightarrow> (mram_mtd_registered sr \<longrightarrow> del_ret = 0) \<longrightarrow>
        (\<exists>ret s'. spi_mram_mtd_register del_ret add_ret mtd sr = Inr (ret, s')
                  \<and> mtd_size (mtds s' mtd) = size_m d))
   \<and> (spi_mram_probe cfg 0 pdel padd dev sp = Inr (pret, sp') \<longrightarrow>
        dev_data sp' = dev_get_driver_data dev)
   \<and> dev_data (snd (spi_mram_remove rcfg rdel rdev sx)) = None
   \<and> spi_mram_read tr m offset len r b (snd (spi_mram_remove rcfg rdel rdev sx)) = Inl Null_deref
   \<and> spi_mram_write tr m offset len r wb (snd (spi_mram_remove rcfg rdel rdev sx)) = Inl Null_deref"
proof (intro conjI impI)
  show "map xf_request (read_xfers tr m offset len r b s) =
     (case dev_data s of
        None \<Rightarrow> []
      | Some d \<Rightarrow>
          if addr_bytes d = 3 then
            [(8, Some [0x03], False, {SPI_XFER_BEGIN}),
             (24, Some [ucast (drop_bit 16 offset), ucast (drop_bit 8 offset), ucast offset],
              False, {}),
             (ucast (8 * len), None, True, {SPI_XFER_END})]
          else if addr_bytes d = 2 then
            [(8, Some [0x03], False, {SPI_XFER_BEGIN}),
             (16, Some [ucast (drop_bit 8 offset), ucast offset, 0], False, {}),
             (ucast (8 * len), None, True, {SPI_XFER_END})]
          else [])"
    by (simp add: read_xfers_request mram_addr_3 mram_addr_2 mram_addr_other split: option.splits)
  show "map xf_request (write_xfers tr m offset len r wb s) =
     (case dev_data s of
        None \<Rightarrow> []
      | Some d \<Rightarrow>
          if addr_bytes d = 3 then
            [(8, Some [0x06], False, {SPI_XFER_BEGIN, SPI_XFER_END}),
             (8, Some [0x02], False, {SPI_XFER_BEGIN}),
             (24, Some [ucast (drop_bit 16 offset), ucast (drop_bit 8 offset), ucast offset],
              False, {}),
             (ucast (8 * len), Some wb, False, {SPI_XFER_END})]
          else if addr_bytes d = 2 then
            [(8, Some [0x06], False, {SPI_XFER_BEGIN, SPI_XFER_END}),
             (8, Some [0x02], False, {SPI_XFER_BEGIN}),
             (16, Some [ucast (drop_bit 8 offset), ucast offset, 0], False, {}),
             (ucast (8 * len), Some wb, False, {SPI_XFER_END})]
          else [])"
    by (simp add: write_xfers_request mram_addr_3 mram_addr_2 mram_addr_other split: option.splits)
next
  assume e: "dev_data s = dev_data t"
  show "map xf_request (read_xfers tr m offset len r b s)
          = map xf_request (read_xfers tr2 m2 offset len r2 b2 t)"
    by (simp only: read_xfers_request e)
  show "map xf_request (write_xfers tr m offset len r wb s)
          = map xf_request (write_xfers tr2 m2 offset len r2 wb t)"
    by (simp only: write_xfers_request e)
next
  assume "dev_data sr = Some d" and "mram_mtd_registered sr \<longrightarrow> del_ret = 0"
  then show "\<exists>ret s'. spi_mram_mtd_register del_ret add_ret mtd sr = Inr (ret, s')
                  \<and> mtd_size (mtds s' mtd) = size_m d"
    by (rule register_size_from_dev_data)
next
  assume "spi_mram_probe cfg 0 pdel padd dev sp = Inr (pret, sp')"
  then show "dev_data sp' = dev_get_driver_data dev"
    by (rule probe_sets_dev_data)
next
  show n: "dev_data (snd (spi_mram_remove rcfg rdel rdev sx)) = None"
    by (rule remove_clears_dev_data)
  show "spi_mram_read tr m offset len r b (snd (spi_mram_remove rcfg rdel rdev sx)) = Inl Null_deref"
    by (simp add: spi_mram_read_def n)
  show "spi_mram_write tr m offset len r wb (snd (spi_mram_remove rcfg rdel rdev sx)) = Inl Null_deref"
    by (simp add: spi_mram_write_def n)
qed

theorem geometry_from_shared_dev_data_witness:
  "spi_mram_probe True 0 0 0 dev_a boot_state = Inr (0, state_a)
   \<and> spi_mram_probe True 0 (- 19) 0 dev_b state_a = Inr (- 19, state_ab)
   \<and> uclass_priv dev_a = 11
   \<and> dev_data state_a = Some \<lparr>size_m = 0x80000, addr_bytes = 3\<rparr>
   \<and> dev_data state_ab = Some \<lparr>size_m = 0x8000, addr_bytes = 2\<rparr>
   \<and> map xf_request (read_xfers tr_ok 11 0x1234 16 0 [] state_a)
       = [(8, Some [0x03], False, {SPI_XFER_BEGIN}),
          (24, Some [0x00, 0x12, 0x34], False, {}),
          (128, None, True, {SPI_XFER_END})]
   \<and> map xf_request (read_xfers tr_ok 11 0x1234 16 0 [] state_ab)
       = [(8, Some [0x03], False, {SPI_XFER_BEGIN}),
          (16, Some [0x12, 0x34, 0x00], False, {}),
          (128, None, True, {SPI_XFER_END})]
   \<and> map xf_request (write_xfers tr_ok 11 0x1234 2 0 [0xAB, 0xCD] state_a)
       = [(8, Some [0x06], False, {SPI_XFER_BEGIN, SPI_XFER_END}),
          (8, Some [0x02], False, {SPI_XFER_BEGIN}),
          (24, Some [0x00, 0x12, 0x34], False, {}),
          (16, Some [0xAB, 0xCD], False, {SPI_XFER_END})]
   \<and> map xf_request (write_xfers tr_ok 11 0x1234 2 0 [0xAB, 0xCD] state_ab)
       = [(8, Some [0x06], False, {SPI_XFER_BEGIN, SPI_XFER_END}),
          (8, Some [0x02], False, {SPI_XFER_BEGIN}),
          (16, Some [0x12, 0x34, 0x00], False, {}),
          (16, Some [0xAB, 0xCD], False, {SPI_XFER_END})]
   \<and> dev_data state_ab = dev_data (boot_state\<lparr>dev_data := Some mr25h256_data\<rparr>)
   \<and> map xf_request (read_xfers tr_ok 11 0x1234 16 0 [] state_ab)
       = map xf_request (read_xfers tr_begin_fails 12 0x1234 16 7 [1]
                           (boot_state\<lparr>dev_data := Some mr25h256_data\<rparr>))
   \<and> map xf_request (write_xfers tr_ok 11 0x1234 16 0 [0xAB, 0xCD] state_ab)
       = map xf_request (write_xfers tr_begin_fails 12 0x1234 16 7 [0xAB, 0xCD]
                           (boot_state\<lparr>dev_data := Some mr25h256_data\<rparr>))
   \<and> mram_mtd_registered state_ab
   \<and> (\<exists>ret s'. spi_mram_mtd_register 0 0 11 state_ab = Inr (ret, s')
                \<and> mtd_size (mtds s' 11) = 0x8000)
   \<and> dev_data (snd (spi_mram_remove True 0 dev_b state_ab)) = None
   \<and> spi_mram_read tr_ok 11 0x1234 16 0 [] (snd (spi_mram_remove True 0 dev_b state_ab))
       = Inl Null_deref
   \<and> spi_mram_write tr_ok 11 0x1234 2 0 [0xAB, 0xCD] (snd (spi_mram_remove True 0 dev_b state_ab))
       = Inl Null_deref"
proof -
  have pb: "spi_mram_probe True 0 (- 19) 0 dev_b state_a = Inr (- 19, state_ab)"
    by (rule probe_b)
  have e: "dev_data state_ab = dev_data (boot_state\<lparr>dev_data := Some mr25h256_data\<rparr>)"
    by (simp add: state_ab_def)
  have da: "dev_data state_a = Some \<lparr>size_m = 0x80000, addr_bytes = 3\<rparr>"
    by (simp add: state_a_def mr25h40_data_def)
  have dd: "dev_data state_ab = Some mr25h256_data"
    by (simp add: state_ab_def)
  have db: "dev_data state_ab = Some \<lparr>size_m = 0x8000, addr_bytes = 2\<rparr>"
    by (simp add: state_ab_def mr25h256_data_def)
  have rg: "mram_mtd_registered state_ab \<longrightarrow> (0::int) = 0"
    by simp
  note ga = geometry_from_shared_dev_data
              [where s = state_a and tr = tr_ok and m = 11 and offset = "0x1234"
                 and r = 0 and b = "[]"]
  note gb = geometry_from_shared_dev_data
              [where s = state_ab and tr = tr_ok and m = 11 and offset = "0x1234"
                 and r = 0 and b = "[]"
                 and t = "boot_state\<lparr>dev_data := Some mr25h256_data\<rparr>"
                 and ?tr2.0 = tr_begin_fails and ?m2.0 = 12 and ?r2.0 = 7 and ?b2.0 = "[1]"
                 and sr = state_ab and d = mr25h256_data and del_ret = 0 and add_ret = 0 and mtd = 11
                 and cfg = True and pdel = "- 19" and padd = 0 and dev = dev_b and sp = state_a
                 and pret = "- 19" and sp' = state_ab
                 and rcfg = True and rdel = 0 and rdev = dev_b and sx = state_ab]
  have ra: "map xf_request (read_xfers tr_ok 11 0x1234 16 0 [] state_a)
       = [(8, Some [0x03], False, {SPI_XFER_BEGIN}),
          (24, Some [0x00, 0x12, 0x34], False, {}),
          (128, None, True, {SPI_XFER_END})]"
    using ga [where len = 16 and wb = "[]"] by (simp add: da)
  have wa: "map xf_request (write_xfers tr_ok 11 0x1234 2 0 [0xAB, 0xCD] state_a)
       = [(8, Some [0x06], False, {SPI_XFER_BEGIN, SPI_XFER_END}),
          (8, Some [0x02], False, {SPI_XFER_BEGIN}),
          (24, Some [0x00, 0x12, 0x34], False, {}),
          (16, Some [0xAB, 0xCD], False, {SPI_XFER_END})]"
    using ga [where len = 2 and wb = "[0xAB, 0xCD]"] by (simp add: da)
  have rb: "map xf_request (read_xfers tr_ok 11 0x1234 16 0 [] state_ab)
       = [(8, Some [0x03], False, {SPI_XFER_BEGIN}),
          (16, Some [0x12, 0x34, 0x00], False, {}),
          (128, None, True, {SPI_XFER_END})]"
    using gb [where len = 16 and wb = "[]"] by (simp add: db)
  have wb: "map xf_request (write_xfers tr_ok 11 0x1234 2 0 [0xAB, 0xCD] state_ab)
       = [(8, Some [0x06], False, {SPI_XFER_BEGIN, SPI_XFER_END}),
          (8, Some [0x02], False, {SPI_XFER_BEGIN}),
          (16, Some [0x12, 0x34, 0x00], False, {}),
          (16, Some [0xAB, 0xCD], False, {SPI_XFER_END})]"
    using gb [where len = 2 and wb = "[0xAB, 0xCD]"] by (simp add: db)
  note g = gb [where len = 16 and wb = "[0xAB, 0xCD]"]
  from g e have rd: "map xf_request (read_xfers tr_ok 11 0x1234 16 0 [] state_ab)
       = map xf_request (read_xfers tr_begin_fails 12 0x1234 16 7 [1]
                           (boot_state\<lparr>dev_data := Some mr25h256_data\<rparr>))"
    and wd: "map xf_request (write_xfers tr_ok 11 0x1234 16 0 [0xAB, 0xCD] state_ab)
       = map xf_request (write_xfers tr_begin_fails 12 0x1234 16 7 [0xAB, 0xCD]
                           (boot_state\<lparr>dev_data := Some mr25h256_data\<rparr>))"
    by blast+
  from g dd rg have sz: "\<exists>ret s'. spi_mram_mtd_register 0 0 11 state_ab = Inr (ret, s')
                \<and> mtd_size (mtds s' 11) = size_m mr25h256_data"
    by blast
  from g pb have pd: "dev_data state_ab = dev_get_driver_data dev_b"
    by blast
  from g have rm: "dev_data (snd (spi_mram_remove True 0 dev_b state_ab)) = None"
    by blast
  from g have rn: "spi_mram_read tr_ok 11 0x1234 16 0 [] (snd (spi_mram_remove True 0 dev_b state_ab))
       = Inl Null_deref"
    by blast
  from gb [where len = 2 and wb = "[0xAB, 0xCD]"]
  have wn: "spi_mram_write tr_ok 11 0x1234 2 0 [0xAB, 0xCD]
              (snd (spi_mram_remove True 0 dev_b state_ab)) = Inl Null_deref"
    by blast
  have up: "uclass_priv dev_a = 11"
    by (simp add: dev_a_def)
  have reg: "mram_mtd_registered state_ab"
    by (simp add: state_ab_def)
  have sz': "\<exists>ret s'. spi_mram_mtd_register 0 0 11 state_ab = Inr (ret, s')
                \<and> mtd_size (mtds s' 11) = 0x8000"
    using sz by (simp add: mr25h256_data_def)
  show ?thesis
    by (intro conjI) (rule probe_a pb up da db ra rb wa wb e rd wd reg sz' rm rn wn)+
qed

end
